theory Spec2Isabelle
  imports Main "HOL-Library.AList"
begin

section \<open>JavaScript values\<close>

text \<open>
  The descriptor stores values of TypeScript type \<open>unknown\<close> and the observer test
  inspects a value of type \<open>AnyJs\<close>.  A value is a primitive, a function object or a
  plain object.  Objects and functions carry the list of the properties visible on
  them (own or inherited: that is what the \<open>in\<close> operator sees), in insertion order.
  Numbers are restricted to the integers.
\<close>

datatype AnyJs =
    JUndefined
  | JNull
  | JBoolean bool
  | JNumber int
  | JString string
  | JFunction "(string \<times> AnyJs) list"
  | JObject "(string \<times> AnyJs) list"

text \<open>The \<open>typeof\<close> operator; \<open>typeof null\<close> is \<open>"object"\<close>.\<close>

fun typeof :: "AnyJs \<Rightarrow> string" where
  "typeof JUndefined = ''undefined''"
| "typeof JNull = ''object''"
| "typeof (JBoolean b) = ''boolean''"
| "typeof (JNumber n) = ''number''"
| "typeof (JString s) = ''string''"
| "typeof (JFunction ps) = ''function''"
| "typeof (JObject ps) = ''object''"

text \<open>\<open>k in object\<close> and \<open>object[k]\<close> on a property list; a missing property reads as
  \<open>undefined\<close>.\<close>

definition js_in :: "string \<Rightarrow> (string \<times> AnyJs) list \<Rightarrow> bool" where
  "js_in k object = (map_of object k \<noteq> None)"

definition js_get :: "(string \<times> AnyJs) list \<Rightarrow> string \<Rightarrow> AnyJs" where
  "js_get object k = (case map_of object k of None \<Rightarrow> JUndefined | Some v \<Rightarrow> v)"

text \<open>\<open>obj[k] = v\<close>: overwrite in place when the key exists, append otherwise.\<close>

abbreviation js_set :: "string \<Rightarrow> AnyJs \<Rightarrow> (string \<times> AnyJs) list \<Rightarrow> (string \<times> AnyJs) list" where
  "js_set k v obj \<equiv> AList.update k v obj"

section \<open>Observer detection\<close>

text \<open>The \<open>for (const method of methods)\<close> loop of \<open>implementsAnyMethods\<close>, with its
  early \<open>return true\<close>.\<close>

fun implementsAnyMethods_loop :: "(string \<times> AnyJs) list \<Rightarrow> string list \<Rightarrow> bool" where
  "implementsAnyMethods_loop object [] = False"
| "implementsAnyMethods_loop object (method # methods) =
     (if js_in method object \<and> typeof (js_get object method) = ''function'' then True
      else implementsAnyMethods_loop object methods)"

text \<open>After the guard only a \<open>JObject\<close> is left, so the last case is never taken.\<close>

definition implementsAnyMethods :: "AnyJs \<Rightarrow> string list \<Rightarrow> bool" where
  "implementsAnyMethods obj methods =
     (if typeof obj \<noteq> ''object'' \<or> obj = JNull then False
      else case obj of
             JObject object \<Rightarrow> implementsAnyMethods_loop object methods
           | _ \<Rightarrow> False)"

definition isPartialObserver :: "AnyJs \<Rightarrow> bool" where
  "isPartialObserver obj = implementsAnyMethods obj [''next'', ''error'', ''complete'']"

section \<open>Indexes, errors and constants\<close>

text \<open>
  Modelled from the spec: the index classes (\<open>../snap/indexes\<close>) are not part of the
  source at hand.  An index is an opaque identifier that the descriptor only compares
  by identity against the three well-known singletons and tests for being a
  \<open>PathIndex\<close>.  \<open>OtherIndex\<close> stands for every \<open>Index\<close> object that is neither one of
  the singletons nor an instance of \<open>PathIndex\<close>; the canonical string form
  (\<open>toString\<close>) is a parameter of the serializers.
\<close>

datatype Index =
    PRIORITY_INDEX
  | VALUE_INDEX
  | KEY_INDEX
  | PathIndex string
  | OtherIndex string

fun instanceof_PathIndex :: "Index \<Rightarrow> bool" where
  "instanceof_PathIndex (PathIndex p) = True"
| "instanceof_PathIndex _ = False"

datatype error = AssertionError string

text \<open>\<open>assert(condition, message)\<close> throws when the condition is false.\<close>

definition assert :: "bool \<Rightarrow> string \<Rightarrow> error + unit" where
  "assert assertion message = (if assertion then Inr () else Inl (AssertionError message))"

text \<open>\<open>WIRE_PROTOCOL_CONSTANTS_\<close>\<close>

abbreviation INDEX_START_VALUE :: string where "INDEX_START_VALUE \<equiv> ''sp''"
abbreviation INDEX_START_NAME :: string where "INDEX_START_NAME \<equiv> ''sn''"
abbreviation INDEX_END_VALUE :: string where "INDEX_END_VALUE \<equiv> ''ep''"
abbreviation INDEX_END_NAME :: string where "INDEX_END_NAME \<equiv> ''en''"
abbreviation LIMIT :: string where "LIMIT \<equiv> ''l''"
abbreviation VIEW_FROM :: string where "VIEW_FROM \<equiv> ''vf''"
abbreviation VIEW_FROM_LEFT :: string where "VIEW_FROM_LEFT \<equiv> ''l''"
abbreviation VIEW_FROM_RIGHT :: string where "VIEW_FROM_RIGHT \<equiv> ''r''"
abbreviation INDEX :: string where "INDEX \<equiv> ''i''"
abbreviation FIND_FILTER :: string where "FIND_FILTER \<equiv> ''f''"
abbreviation FIND_OPTION :: string where "FIND_OPTION \<equiv> ''p''"
abbreviation AGGREGATE_PIPELINE :: string where "AGGREGATE_PIPELINE \<equiv> ''a''"

text \<open>\<open>REST_QUERY_CONSTANTS_\<close>\<close>

abbreviation ORDER_BY :: string where "ORDER_BY \<equiv> ''orderBy''"
abbreviation REST_PRIORITY_INDEX :: string where "REST_PRIORITY_INDEX \<equiv> ''$priority''"
abbreviation REST_VALUE_INDEX :: string where "REST_VALUE_INDEX \<equiv> ''$value''"
abbreviation REST_KEY_INDEX :: string where "REST_KEY_INDEX \<equiv> ''$key''"
abbreviation START_AT :: string where "START_AT \<equiv> ''startAt''"
abbreviation END_AT :: string where "END_AT \<equiv> ''endAt''"
abbreviation LIMIT_TO_FIRST :: string where "LIMIT_TO_FIRST \<equiv> ''limitToFirst''"
abbreviation LIMIT_TO_LAST :: string where "LIMIT_TO_LAST \<equiv> ''limitToLast''"

section \<open>The query descriptor\<close>

text \<open>The fields of class \<open>QueryParams\<close>; a field \<open>x_\<close> of the source is \<open>x_'\<close> here
  (a name cannot end in an underscore).  The two name fields are declared as strings
  but are assigned whatever \<open>key\<close> the caller passed, so they hold a JavaScript value.\<close>

record QueryParams =
  limitSet_' :: bool
  startSet_' :: bool
  startNameSet_' :: bool
  endSet_' :: bool
  endNameSet_' :: bool
  findSet_' :: bool
  aggregateSet_' :: bool
  limit_' :: int
  viewFrom_' :: string
  indexStartValue_' :: AnyJs
  indexStartName_' :: AnyJs
  indexEndValue_' :: AnyJs
  indexEndName_' :: AnyJs
  findFilter_' :: AnyJs
  findOption_' :: AnyJs
  aggregatePipeline_' :: AnyJs
  index_' :: Index

text \<open>\<open>new QueryParams()\<close>: the field initialisers.\<close>

definition new_QueryParams :: QueryParams where
  "new_QueryParams =
     \<lparr> limitSet_' = False, startSet_' = False, startNameSet_' = False, endSet_' = False,
       endNameSet_' = False, findSet_' = False, aggregateSet_' = False,
       limit_' = 0, viewFrom_' = '''',
       indexStartValue_' = JNull, indexStartName_' = JString '''',
       indexEndValue_' = JNull, indexEndName_' = JString '''',
       findFilter_' = JNull, findOption_' = JNull, aggregatePipeline_' = JNull,
       index_' = PRIORITY_INDEX \<rparr>"

definition DEFAULT :: QueryParams where
  "DEFAULT = new_QueryParams"

definition hasStart :: "QueryParams \<Rightarrow> bool" where
  "hasStart this = startSet_' this"

definition isViewFromLeft :: "QueryParams \<Rightarrow> bool" where
  "isViewFromLeft this =
     (if viewFrom_' this = '''' then startSet_' this
      else viewFrom_' this = VIEW_FROM_LEFT)"

definition getIndexStartValue :: "QueryParams \<Rightarrow> error + AnyJs" where
  "getIndexStartValue this =
     (case assert (startSet_' this) ''Only valid if start has been set'' of
        Inl e \<Rightarrow> Inl e
      | Inr _ \<Rightarrow> Inr (indexStartValue_' this))"

text \<open>\<open>MIN_NAME\<close> and \<open>MAX_NAME\<close> come from \<open>../util/util\<close>, which is not part of the
  source at hand: they are parameters.\<close>

definition getIndexStartName :: "string \<Rightarrow> QueryParams \<Rightarrow> error + AnyJs" where
  "getIndexStartName MIN_NAME this =
     (case assert (startSet_' this) ''Only valid if start has been set'' of
        Inl e \<Rightarrow> Inl e
      | Inr _ \<Rightarrow> (if startNameSet_' this then Inr (indexStartName_' this)
                 else Inr (JString MIN_NAME)))"

definition hasEnd :: "QueryParams \<Rightarrow> bool" where
  "hasEnd this = endSet_' this"

definition hasMongo :: "QueryParams \<Rightarrow> bool" where
  "hasMongo this = (findSet_' this \<or> aggregateSet_' this)"

definition getIndexEndValue :: "QueryParams \<Rightarrow> error + AnyJs" where
  "getIndexEndValue this =
     (case assert (endSet_' this) ''Only valid if end has been set'' of
        Inl e \<Rightarrow> Inl e
      | Inr _ \<Rightarrow> Inr (indexEndValue_' this))"

definition getIndexEndName :: "string \<Rightarrow> QueryParams \<Rightarrow> error + AnyJs" where
  "getIndexEndName MAX_NAME this =
     (case assert (endSet_' this) ''Only valid if end has been set'' of
        Inl e \<Rightarrow> Inl e
      | Inr _ \<Rightarrow> (if endNameSet_' this then Inr (indexEndName_' this)
                 else Inr (JString MAX_NAME)))"

definition hasLimit :: "QueryParams \<Rightarrow> bool" where
  "hasLimit this = limitSet_' this"

definition hasAnchoredLimit :: "QueryParams \<Rightarrow> bool" where
  "hasAnchoredLimit this = (limitSet_' this \<and> viewFrom_' this \<noteq> '''')"

definition getLimit :: "QueryParams \<Rightarrow> error + int" where
  "getLimit this =
     (case assert (limitSet_' this) ''Only valid if limit has been set'' of
        Inl e \<Rightarrow> Inl e
      | Inr _ \<Rightarrow> Inr (limit_' this))"

definition getIndex :: "QueryParams \<Rightarrow> Index" where
  "getIndex this = index_' this"

text \<open>\<open>copy_\<close>: a fresh object, then one assignment per line of the source, in the
  source's order.  There is no assignment to \<open>aggregateSet_\<close>.\<close>

definition copy_' :: "QueryParams \<Rightarrow> QueryParams" where
  "copy_' this =
     (let copy = new_QueryParams;
          copy = copy\<lparr>limitSet_' := limitSet_' this\<rparr>;
          copy = copy\<lparr>limit_' := limit_' this\<rparr>;
          copy = copy\<lparr>startSet_' := startSet_' this\<rparr>;
          copy = copy\<lparr>indexStartValue_' := indexStartValue_' this\<rparr>;
          copy = copy\<lparr>startNameSet_' := startNameSet_' this\<rparr>;
          copy = copy\<lparr>findSet_' := findSet_' this\<rparr>;
          copy = copy\<lparr>indexStartName_' := indexStartName_' this\<rparr>;
          copy = copy\<lparr>endSet_' := endSet_' this\<rparr>;
          copy = copy\<lparr>indexEndValue_' := indexEndValue_' this\<rparr>;
          copy = copy\<lparr>endNameSet_' := endNameSet_' this\<rparr>;
          copy = copy\<lparr>indexEndName_' := indexEndName_' this\<rparr>;
          copy = copy\<lparr>index_' := index_' this\<rparr>;
          copy = copy\<lparr>viewFrom_' := viewFrom_' this\<rparr>;
          copy = copy\<lparr>findFilter_' := findFilter_' this\<rparr>;
          copy = copy\<lparr>findOption_' := findOption_' this\<rparr>;
          copy = copy\<lparr>aggregatePipeline_' := aggregatePipeline_' this\<rparr>
      in copy)"

text \<open>The transitions.  An omitted argument is \<open>JUndefined\<close>.\<close>

definition find_mode :: "QueryParams \<Rightarrow> AnyJs \<Rightarrow> AnyJs \<Rightarrow> QueryParams" where
  "find_mode this filter0 option0 =
     (let newParams = copy_' this;
          filter1 = (if filter0 = JUndefined then JNull else filter0);
          option1 = (if option0 = JUndefined then JNull else option0)
      in newParams\<lparr>findSet_' := True, findFilter_' := filter1, findOption_' := option1\<rparr>)"

definition aggregate :: "QueryParams \<Rightarrow> AnyJs \<Rightarrow> QueryParams" where
  "aggregate this pipeline0 =
     (let newParams = copy_' this;
          pipeline1 = (if pipeline0 = JUndefined then JNull else pipeline0)
      in newParams\<lparr>aggregateSet_' := True, aggregatePipeline_' := pipeline1\<rparr>)"

definition limit :: "QueryParams \<Rightarrow> int \<Rightarrow> QueryParams" where
  "limit this newLimit =
     (let newParams = copy_' this
      in newParams\<lparr>limitSet_' := True, limit_' := newLimit, viewFrom_' := ''''\<rparr>)"

definition limitToFirst :: "QueryParams \<Rightarrow> int \<Rightarrow> QueryParams" where
  "limitToFirst this newLimit =
     (let newParams = copy_' this
      in newParams\<lparr>limitSet_' := True, limit_' := newLimit, viewFrom_' := VIEW_FROM_LEFT\<rparr>)"

definition limitToLast :: "QueryParams \<Rightarrow> int \<Rightarrow> QueryParams" where
  "limitToLast this newLimit =
     (let newParams = copy_' this
      in newParams\<lparr>limitSet_' := True, limit_' := newLimit, viewFrom_' := VIEW_FROM_RIGHT\<rparr>)"

text \<open>\<open>startAt\<close> tests its key with \<open>key != null\<close> (loose: neither \<open>null\<close> nor
  \<open>undefined\<close>); \<open>endAt\<close> tests it with \<open>key !== undefined\<close>.\<close>

definition startAt :: "QueryParams \<Rightarrow> AnyJs \<Rightarrow> AnyJs \<Rightarrow> QueryParams" where
  "startAt this indexValue0 key =
     (let newParams = copy_' this;
          newParams = newParams\<lparr>startSet_' := True\<rparr>;
          indexValue1 = (if indexValue0 = JUndefined then JNull else indexValue0);
          newParams = newParams\<lparr>indexStartValue_' := indexValue1\<rparr>
      in if key \<noteq> JNull \<and> key \<noteq> JUndefined
         then newParams\<lparr>startNameSet_' := True, indexStartName_' := key\<rparr>
         else newParams\<lparr>startNameSet_' := False, indexStartName_' := JString ''''\<rparr>)"

definition endAt :: "QueryParams \<Rightarrow> AnyJs \<Rightarrow> AnyJs \<Rightarrow> QueryParams" where
  "endAt this indexValue0 key =
     (let newParams = copy_' this;
          newParams = newParams\<lparr>endSet_' := True\<rparr>;
          indexValue1 = (if indexValue0 = JUndefined then JNull else indexValue0);
          newParams = newParams\<lparr>indexEndValue_' := indexValue1\<rparr>
      in if key \<noteq> JUndefined
         then newParams\<lparr>endNameSet_' := True, indexEndName_' := key\<rparr>
         else newParams\<lparr>endNameSet_' := False, indexEndName_' := JString ''''\<rparr>)"

definition orderBy :: "QueryParams \<Rightarrow> Index \<Rightarrow> QueryParams" where
  "orderBy this index = (let newParams = copy_' this in newParams\<lparr>index_' := index\<rparr>)"

section \<open>Serializers\<close>

definition getMongoObject :: "QueryParams \<Rightarrow> (string \<times> AnyJs) list" where
  "getMongoObject this =
     (let obj = [];
          obj = (if findSet_' this
                 then js_set FIND_OPTION (findOption_' this)
                        (js_set FIND_FILTER (findFilter_' this) obj)
                 else obj);
          obj = (if aggregateSet_' this
                 then js_set AGGREGATE_PIPELINE (aggregatePipeline_' this) obj
                 else obj)
      in obj)"

text \<open>The index is rendered by its \<open>toString\<close>, a parameter (see above).\<close>

definition getQueryObject :: "(Index \<Rightarrow> string) \<Rightarrow> QueryParams \<Rightarrow> (string \<times> AnyJs) list" where
  "getQueryObject toString this =
     (let obj = [];
          obj = (if startSet_' this
                 then (let obj = js_set INDEX_START_VALUE (indexStartValue_' this) obj
                       in if startNameSet_' this
                          then js_set INDEX_START_NAME (indexStartName_' this) obj
                          else obj)
                 else obj);
          obj = (if endSet_' this
                 then (let obj = js_set INDEX_END_VALUE (indexEndValue_' this) obj
                       in if endNameSet_' this
                          then js_set INDEX_END_NAME (indexEndName_' this) obj
                          else obj)
                 else obj);
          obj = (if limitSet_' this
                 then (let obj = js_set LIMIT (JNumber (limit_' this)) obj;
                           viewFrom = viewFrom_' this;
                           viewFrom = (if viewFrom = ''''
                                       then (if isViewFromLeft this then VIEW_FROM_LEFT
                                             else VIEW_FROM_RIGHT)
                                       else viewFrom)
                       in js_set VIEW_FROM (JString viewFrom) obj)
                 else obj);
          obj = (if index_' this \<noteq> PRIORITY_INDEX
                 then js_set INDEX (JString (toString (index_' this))) obj
                 else obj)
      in obj)"

definition loadsAllData :: "QueryParams \<Rightarrow> bool" where
  "loadsAllData this =
     (\<not> (startSet_' this \<or> endSet_' this \<or> limitSet_' this) \<and>
      \<not> findSet_' this \<and>
      \<not> aggregateSet_' this)"

definition isDefault :: "QueryParams \<Rightarrow> bool" where
  "isDefault this = (loadsAllData this \<and> index_' this = PRIORITY_INDEX)"

text \<open>The three filter strategies, each with what its constructor is given.\<close>

datatype NodeFilter =
    IndexedFilter Index
  | LimitedFilter QueryParams
  | RangedFilter QueryParams

definition getNodeFilter :: "QueryParams \<Rightarrow> NodeFilter" where
  "getNodeFilter this =
     (if loadsAllData this then IndexedFilter (getIndex this)
      else if hasLimit this then LimitedFilter this
      else RangedFilter this)"

text \<open>
  \<open>toRestQueryStringParameters\<close>.  \<open>stringify\<close> is the library routine of
  \<open>@firebase/util\<close>, a parameter here.  The statement
  \<open>qs[START_AT] += ',' + stringify(name)\<close> appends to the string stored one line
  before.
\<close>

definition toRestQueryStringParameters ::
  "(AnyJs \<Rightarrow> string) \<Rightarrow> (Index \<Rightarrow> string) \<Rightarrow> QueryParams \<Rightarrow> error + (string \<times> AnyJs) list" where
  "toRestQueryStringParameters stringify toString this =
     (let qs = [] in
      if isDefault this then Inr qs
      else
        case (if index_' this = PRIORITY_INDEX then Inr REST_PRIORITY_INDEX
              else if index_' this = VALUE_INDEX then Inr REST_VALUE_INDEX
              else if index_' this = KEY_INDEX then Inr REST_KEY_INDEX
              else case assert (instanceof_PathIndex (index_' this)) ''Unrecognized index type!'' of
                     Inl e \<Rightarrow> Inl e
                   | Inr _ \<Rightarrow> Inr (toString (index_' this))) of
          Inl e \<Rightarrow> Inl e
        | Inr orderBy1 \<Rightarrow>
            (let qs = js_set ORDER_BY (JString (stringify (JString orderBy1))) qs;
                 qs = (if startSet_' this
                       then (let qs = js_set START_AT (JString (stringify (indexStartValue_' this))) qs
                             in if startNameSet_' this
                                then js_set START_AT
                                       (JString (stringify (indexStartValue_' this) @ '','' @
                                                 stringify (indexStartName_' this))) qs
                                else qs)
                       else qs);
                 qs = (if endSet_' this
                       then (let qs = js_set END_AT (JString (stringify (indexEndValue_' this))) qs
                             in if endNameSet_' this
                                then js_set END_AT
                                       (JString (stringify (indexEndValue_' this) @ '','' @
                                                 stringify (indexEndName_' this))) qs
                                else qs)
                       else qs);
                 qs = (if limitSet_' this
                       then (if isViewFromLeft this
                             then js_set LIMIT_TO_FIRST (JNumber (limit_' this)) qs
                             else js_set LIMIT_TO_LAST (JNumber (limit_' this)) qs)
                       else qs)
             in Inr qs))"

section \<open>Reachable descriptors\<close>

text \<open>
  The descriptors obtained from \<open>DEFAULT\<close> by the public transitions.  A key argument
  is a string, \<open>null\<close> or omitted, as its type \<open>string | null\<close> says; the predicate
  \<open>okLimit\<close> says which numbers the callers pass as a limit.
\<close>

fun isKeyArg :: "AnyJs \<Rightarrow> bool" where
  "isKeyArg JUndefined = True"
| "isKeyArg JNull = True"
| "isKeyArg (JString s) = True"
| "isKeyArg _ = False"

inductive reachable :: "(int \<Rightarrow> bool) \<Rightarrow> QueryParams \<Rightarrow> bool" for okLimit :: "int \<Rightarrow> bool" where
  r_DEFAULT: "reachable okLimit DEFAULT"
| r_startAt: "reachable okLimit d \<Longrightarrow> isKeyArg key \<Longrightarrow> reachable okLimit (startAt d v key)"
| r_endAt: "reachable okLimit d \<Longrightarrow> isKeyArg key \<Longrightarrow> reachable okLimit (endAt d v key)"
| r_limit: "reachable okLimit d \<Longrightarrow> okLimit n \<Longrightarrow> reachable okLimit (limit d n)"
| r_limitToFirst: "reachable okLimit d \<Longrightarrow> okLimit n \<Longrightarrow> reachable okLimit (limitToFirst d n)"
| r_limitToLast: "reachable okLimit d \<Longrightarrow> okLimit n \<Longrightarrow> reachable okLimit (limitToLast d n)"
| r_orderBy: "reachable okLimit d \<Longrightarrow> reachable okLimit (orderBy d i)"
| r_find: "reachable okLimit d \<Longrightarrow> reachable okLimit (find_mode d f p)"
| r_aggregate: "reachable okLimit d \<Longrightarrow> reachable okLimit (aggregate d a)"

abbreviation anyLimit :: "int \<Rightarrow> bool" where
  "anyLimit \<equiv> (\<lambda>n. True)"

section \<open>Notions of the specification\<close>

text \<open>
  The specification speaks of one rendered wire object with the ten tokens; the code
  renders it in two parts, \<open>getQueryObject\<close> and \<open>getMongoObject\<close>.  The tokens of the
  wire object are the keys of both parts.
\<close>

definition wireTokens :: "(Index \<Rightarrow> string) \<Rightarrow> QueryParams \<Rightarrow> string set" where
  "wireTokens toString d =
     fst ` set (getQueryObject toString d) \<union> fst ` set (getMongoObject d)"

text \<open>A value exposes the member \<open>m\<close> as a callable: it carries a property \<open>m\<close> whose
  value is a function.\<close>

definition exposesCallable :: "AnyJs \<Rightarrow> string \<Rightarrow> bool" where
  "exposesCallable x m =
     (case x of
        JObject ps \<Rightarrow> (case map_of ps m of Some (JFunction fps) \<Rightarrow> True | _ \<Rightarrow> False)
      | JFunction ps \<Rightarrow> (case map_of ps m of Some (JFunction fps) \<Rightarrow> True | _ \<Rightarrow> False)
      | _ \<Rightarrow> False)"

text \<open>A well-formed descriptor orders by one of the well-known indexes: priority, value,
  key or a child path.\<close>

fun knownIndex :: "Index \<Rightarrow> bool" where
  "knownIndex (OtherIndex s) = False"
| "knownIndex _ = True"

text \<open>The \<open>orderBy\<close> string that \<open>toRestQueryStringParameters\<close> computes for a known
  index.\<close>

definition restOrderBy :: "(Index \<Rightarrow> string) \<Rightarrow> Index \<Rightarrow> string" where
  "restOrderBy toString i =
     (case i of
        PRIORITY_INDEX \<Rightarrow> REST_PRIORITY_INDEX
      | VALUE_INDEX \<Rightarrow> REST_VALUE_INDEX
      | KEY_INDEX \<Rightarrow> REST_KEY_INDEX
      | _ \<Rightarrow> toString i)"

text \<open>Two descriptors of the specification's examples:
  \<open>DEFAULT.startAt(5, "k1").endAt(10).limitToFirst(3)\<close> and \<open>DEFAULT.startAt(5).limit(3)\<close>.\<close>

abbreviation (input) example1 :: QueryParams where
  "example1 \<equiv>
     limitToFirst (endAt (startAt DEFAULT (JNumber 5) (JString ''k1'')) (JNumber 10) JUndefined) 3"

abbreviation (input) example2 :: QueryParams where
  "example2 \<equiv> limit (startAt DEFAULT (JNumber 5) JUndefined) 3"

section \<open>Basic facts\<close>

text \<open>What \<open>copy_\<close> carries over, field by field.\<close>

lemma copy_fields:
  "limitSet_' (copy_' d) = limitSet_' d"
  "startSet_' (copy_' d) = startSet_' d"
  "startNameSet_' (copy_' d) = startNameSet_' d"
  "endSet_' (copy_' d) = endSet_' d"
  "endNameSet_' (copy_' d) = endNameSet_' d"
  "findSet_' (copy_' d) = findSet_' d"
  "aggregateSet_' (copy_' d) = False"
  "limit_' (copy_' d) = limit_' d"
  "viewFrom_' (copy_' d) = viewFrom_' d"
  "indexStartValue_' (copy_' d) = indexStartValue_' d"
  "indexStartName_' (copy_' d) = indexStartName_' d"
  "indexEndValue_' (copy_' d) = indexEndValue_' d"
  "indexEndName_' (copy_' d) = indexEndName_' d"
  "findFilter_' (copy_' d) = findFilter_' d"
  "findOption_' (copy_' d) = findOption_' d"
  "aggregatePipeline_' (copy_' d) = aggregatePipeline_' d"
  "index_' (copy_' d) = index_' d"
  by (simp_all add: copy_'_def new_QueryParams_def)

lemmas transition_defs =
  startAt_def endAt_def limit_def limitToFirst_def limitToLast_def orderBy_def
  find_mode_def aggregate_def copy_fields Let_def

lemmas predicate_defs =
  hasStart_def hasEnd_def hasLimit_def hasAnchoredLimit_def isViewFromLeft_def
  loadsAllData_def isDefault_def

lemmas eval_defs = DEFAULT_def new_QueryParams_def transition_defs predicate_defs

lemma keys_update: "fst ` set (AList.update k v al) = insert k (fst ` set al)"
  by (simp add: AList.dom_update)

lemma keys_getQueryObject:
  "fst ` set (getQueryObject toString d) =
     (if startSet_' d
      then {INDEX_START_VALUE} \<union> (if startNameSet_' d then {INDEX_START_NAME} else {})
      else {})
     \<union> (if endSet_' d
        then {INDEX_END_VALUE} \<union> (if endNameSet_' d then {INDEX_END_NAME} else {})
        else {})
     \<union> (if limitSet_' d then {LIMIT, VIEW_FROM} else {})
     \<union> (if index_' d \<noteq> PRIORITY_INDEX then {INDEX} else {})"
  by (auto simp: getQueryObject_def Let_def dom_update)

lemma keys_getMongoObject:
  "fst ` set (getMongoObject d) =
     (if findSet_' d then {FIND_FILTER, FIND_OPTION} else {})
     \<union> (if aggregateSet_' d then {AGGREGATE_PIPELINE} else {})"
  by (simp add: getMongoObject_def Let_def keys_update insert_commute del: update.simps)

lemma vf_getQueryObject:
  "limitSet_' d \<Longrightarrow>
   map_of (getQueryObject toString d) VIEW_FROM =
     Some (JString (if viewFrom_' d = ''''
                    then (if isViewFromLeft d then VIEW_FROM_LEFT else VIEW_FROM_RIGHT)
                    else viewFrom_' d))"
  by (simp add: getQueryObject_def Let_def update_conv')

text \<open>Invariants of the reachable descriptors, by induction on how they were built.\<close>

lemma reachable_viewFrom:
  "reachable okLimit d \<Longrightarrow>
     viewFrom_' d = '''' \<or> viewFrom_' d = VIEW_FROM_LEFT \<or> viewFrom_' d = VIEW_FROM_RIGHT"
  by (induction rule: reachable.induct)
     (simp_all add: DEFAULT_def new_QueryParams_def transition_defs)

lemma reachable_names:
  "reachable okLimit d \<Longrightarrow>
     (startNameSet_' d \<longrightarrow> startSet_' d) \<and> (endNameSet_' d \<longrightarrow> endSet_' d)"
  by (induction rule: reachable.induct)
     (simp_all add: DEFAULT_def new_QueryParams_def transition_defs)

lemma reachable_limit:
  "reachable (\<lambda>n. 0 \<le> n) d \<Longrightarrow> 0 \<le> limit_' d"
  by (induction rule: reachable.induct)
     (simp_all add: DEFAULT_def new_QueryParams_def transition_defs)

text \<open>The observer loop finds a method iff one of the listed names is a callable member.\<close>

lemma implementsAnyMethods_loop_iff:
  "implementsAnyMethods_loop object methods \<longleftrightarrow>
     (\<exists>m \<in> set methods. js_in m object \<and> typeof (js_get object m) = ''function'')"
  by (induction methods) auto

lemma typeof_function: "typeof x = ''function'' \<longleftrightarrow> (\<exists>ps. x = JFunction ps)"
  by (cases x) auto

lemma callable_member:
  "js_in m ps \<and> typeof (js_get ps m) = ''function'' \<longleftrightarrow> exposesCallable (JObject ps) m"
  by (auto simp: js_in_def js_get_def exposesCallable_def typeof_function
           split: option.splits AnyJs.splits)

text \<open>The REST serializer, case by case.\<close>

lemma toRest_default: "isDefault d \<Longrightarrow> toRestQueryStringParameters sf ts d = Inr []"
  by (simp add: toRestQueryStringParameters_def)

lemma toRest_known:
  assumes "knownIndex (index_' d)" "\<not> isDefault d"
  shows "\<exists>qs. toRestQueryStringParameters sf ts d = Inr qs
     \<and> map_of qs ORDER_BY = Some (JString (sf (JString (restOrderBy ts (index_' d)))))
     \<and> map_of qs LIMIT_TO_FIRST =
         (if limitSet_' d \<and> isViewFromLeft d then Some (JNumber (limit_' d)) else None)
     \<and> map_of qs LIMIT_TO_LAST =
         (if limitSet_' d \<and> \<not> isViewFromLeft d then Some (JNumber (limit_' d)) else None)"
  using assms
  by (cases "index_' d")
     (simp_all add: toRestQueryStringParameters_def Let_def assert_def restOrderBy_def
                    update_conv'
               del: update.simps)

lemma toRest_unknown:
  "\<not> knownIndex (index_' d) \<Longrightarrow>
     toRestQueryStringParameters sf ts d = Inl (AssertionError ''Unrecognized index type!'')"
  by (cases "index_' d")
     (simp_all add: toRestQueryStringParameters_def Let_def assert_def isDefault_def)

lemma toRest_nonempty:
  assumes "\<not> isDefault d"
  shows "toRestQueryStringParameters sf ts d \<noteq> Inr []"
proof (cases "knownIndex (index_' d)")
  case True
  from toRest_known [OF True assms, of sf ts] obtain qs where
    "toRestQueryStringParameters sf ts d = Inr qs" "map_of qs ORDER_BY \<noteq> None" by auto
  then show ?thesis by auto
next
  case False
  then show ?thesis by (simp add: toRest_unknown)
qed

section \<open>The claims\<close>

subsection \<open>C1: wire tokens and set fields\<close>

text \<open>
  C1.  For every descriptor (reachable or not), a token is among the keys of the rendered
  wire object iff the corresponding field is set: \<open>sp\<close> iff \<open>hasStart\<close>, \<open>sn\<close> iff
  \<open>hasStart\<close> and the start-name flag, \<open>ep\<close> iff \<open>hasEnd\<close>, \<open>en\<close> iff \<open>hasEnd\<close> and the
  end-name flag, \<open>l\<close> and \<open>vf\<close> iff \<open>hasLimit\<close>, \<open>i\<close> iff the index is not the
  priority index, \<open>f\<close> and \<open>p\<close> iff the find flag, \<open>a\<close> iff the aggregate flag.  A field
  that is not set has no key at all (so it is not rendered as \<open>null\<close> either), and no
  other key is ever rendered.
\<close>

theorem wire_token_iff_field_set:
  "(INDEX_START_VALUE \<in> wireTokens toString d \<longleftrightarrow> hasStart d)
   \<and> (INDEX_START_NAME \<in> wireTokens toString d \<longleftrightarrow> hasStart d \<and> startNameSet_' d)
   \<and> (INDEX_END_VALUE \<in> wireTokens toString d \<longleftrightarrow> hasEnd d)
   \<and> (INDEX_END_NAME \<in> wireTokens toString d \<longleftrightarrow> hasEnd d \<and> endNameSet_' d)
   \<and> (LIMIT \<in> wireTokens toString d \<longleftrightarrow> hasLimit d)
   \<and> (VIEW_FROM \<in> wireTokens toString d \<longleftrightarrow> hasLimit d)
   \<and> (INDEX \<in> wireTokens toString d \<longleftrightarrow> index_' d \<noteq> PRIORITY_INDEX)
   \<and> (FIND_FILTER \<in> wireTokens toString d \<longleftrightarrow> findSet_' d)
   \<and> (FIND_OPTION \<in> wireTokens toString d \<longleftrightarrow> findSet_' d)
   \<and> (AGGREGATE_PIPELINE \<in> wireTokens toString d \<longleftrightarrow> aggregateSet_' d)
   \<and> wireTokens toString d \<subseteq>
       {INDEX_START_VALUE, INDEX_START_NAME, INDEX_END_VALUE, INDEX_END_NAME, LIMIT,
        VIEW_FROM, INDEX, FIND_FILTER, FIND_OPTION, AGGREGATE_PIPELINE}"
  unfolding wireTokens_def keys_getQueryObject keys_getMongoObject
            hasStart_def hasEnd_def hasLimit_def
  by auto

theorem wire_token_iff_field_set_witness:
  "INDEX_START_VALUE \<in> wireTokens (\<lambda>i. ''.value'') example1
   \<and> INDEX_START_NAME \<in> wireTokens (\<lambda>i. ''.value'') example1
   \<and> INDEX_END_VALUE \<in> wireTokens (\<lambda>i. ''.value'') example1
   \<and> INDEX_END_NAME \<notin> wireTokens (\<lambda>i. ''.value'') example1
   \<and> LIMIT \<in> wireTokens (\<lambda>i. ''.value'') example1
   \<and> VIEW_FROM \<in> wireTokens (\<lambda>i. ''.value'') example1
   \<and> INDEX \<notin> wireTokens (\<lambda>i. ''.value'') example1
   \<and> FIND_FILTER \<notin> wireTokens (\<lambda>i. ''.value'') example1
   \<and> AGGREGATE_PIPELINE \<notin> wireTokens (\<lambda>i. ''.value'') example1"
  using wire_token_iff_field_set [of "\<lambda>i. ''.value''" example1]
  by (simp add: eval_defs)

subsection \<open>C2: filter selection\<close>

text \<open>
  C2.  \<open>getNodeFilter\<close> returns, for every descriptor, the full-scan filter on the
  ordering index when \<open>loadsAllData\<close> holds, otherwise the limited-window filter on the
  whole descriptor when \<open>hasLimit\<close> holds, otherwise the ranged filter on the whole
  descriptor.  The three cases exclude each other, and the limited-window filter is
  chosen iff \<open>hasLimit\<close> is true, whatever the bounds.
\<close>

theorem getNodeFilter_selection:
  "getNodeFilter d =
     (if loadsAllData d then IndexedFilter (getIndex d)
      else if hasLimit d then LimitedFilter d
      else RangedFilter d)
   \<and> (getNodeFilter d = IndexedFilter (index_' d) \<longleftrightarrow> loadsAllData d)
   \<and> (getNodeFilter d = LimitedFilter d \<longleftrightarrow> hasLimit d)
   \<and> ((\<exists>q. getNodeFilter d = LimitedFilter q) \<longleftrightarrow> hasLimit d)
   \<and> (getNodeFilter d = RangedFilter d \<longleftrightarrow> \<not> loadsAllData d \<and> \<not> hasLimit d)"
  by (auto simp: getNodeFilter_def loadsAllData_def hasLimit_def getIndex_def)

theorem getNodeFilter_selection_witness:
  "getNodeFilter DEFAULT = IndexedFilter PRIORITY_INDEX
   \<and> getNodeFilter example1 = LimitedFilter example1
   \<and> getNodeFilter (startAt DEFAULT (JNumber 5) JUndefined)
       = RangedFilter (startAt DEFAULT (JNumber 5) JUndefined)"
  using getNodeFilter_selection [of DEFAULT]
        getNodeFilter_selection [of example1]
        getNodeFilter_selection [of "startAt DEFAULT (JNumber 5) JUndefined"]
  by (simp add: getIndex_def eval_defs)

subsection \<open>C3: anchor-side resolution\<close>

text \<open>
  C3.  On every reachable descriptor \<open>isViewFromLeft\<close> says whether the anchor is left
  when an anchor is set (after \<open>limitToFirst\<close> it is true, after \<open>limitToLast\<close> false),
  and says whether a start bound is present when no anchor is set (so after \<open>limit\<close> it
  is \<open>hasStart\<close>).  When a limit is present the \<open>vf\<close> token of the wire object is
  \<open>l\<close> or \<open>r\<close> according to \<open>isViewFromLeft\<close>: with an unanchored limit it is \<open>l\<close> iff a
  start bound is present, and it is never the unset value.
\<close>

theorem isViewFromLeft_resolution:
  assumes "reachable anyLimit d"
  shows "(viewFrom_' d \<noteq> '''' \<longrightarrow> isViewFromLeft d = (viewFrom_' d = VIEW_FROM_LEFT))
   \<and> (viewFrom_' d = '''' \<longrightarrow> isViewFromLeft d = hasStart d)
   \<and> isViewFromLeft (limitToFirst d n) \<and> \<not> isViewFromLeft (limitToLast d n)
   \<and> isViewFromLeft (limit d n) = hasStart d
   \<and> (hasLimit d \<and> \<not> hasAnchoredLimit d \<longrightarrow>
        map_of (getQueryObject toString d) VIEW_FROM =
          Some (JString (if hasStart d then VIEW_FROM_LEFT else VIEW_FROM_RIGHT)))
   \<and> (hasLimit d \<longrightarrow>
        map_of (getQueryObject toString d) VIEW_FROM =
          Some (JString (if isViewFromLeft d then VIEW_FROM_LEFT else VIEW_FROM_RIGHT)))"
proof -
  have vf: "viewFrom_' d = '''' \<or> viewFrom_' d = VIEW_FROM_LEFT \<or> viewFrom_' d = VIEW_FROM_RIGHT"
    using assms by (rule reachable_viewFrom)
  have side: "(viewFrom_' d \<noteq> '''' \<longrightarrow> isViewFromLeft d = (viewFrom_' d = VIEW_FROM_LEFT))
           \<and> (viewFrom_' d = '''' \<longrightarrow> isViewFromLeft d = hasStart d)"
    by (simp add: isViewFromLeft_def hasStart_def)
  have after: "isViewFromLeft (limitToFirst d n) \<and> \<not> isViewFromLeft (limitToLast d n)
           \<and> isViewFromLeft (limit d n) = hasStart d"
    by (simp add: isViewFromLeft_def limitToFirst_def limitToLast_def limit_def hasStart_def
                  copy_fields Let_def)
  have unanchored: "hasLimit d \<and> \<not> hasAnchoredLimit d \<longrightarrow>
        map_of (getQueryObject toString d) VIEW_FROM =
          Some (JString (if hasStart d then VIEW_FROM_LEFT else VIEW_FROM_RIGHT))"
    by (simp add: hasLimit_def hasAnchoredLimit_def vf_getQueryObject isViewFromLeft_def
                  hasStart_def)
  have committed: "hasLimit d \<longrightarrow>
        map_of (getQueryObject toString d) VIEW_FROM =
          Some (JString (if isViewFromLeft d then VIEW_FROM_LEFT else VIEW_FROM_RIGHT))"
    using vf by (auto simp: hasLimit_def vf_getQueryObject isViewFromLeft_def)
  from side after unanchored committed show ?thesis by blast
qed

theorem isViewFromLeft_resolution_witness:
  "reachable anyLimit example2
   \<and> isViewFromLeft example2
   \<and> map_of (getQueryObject (\<lambda>i. ''.value'') example2) VIEW_FROM = Some (JString VIEW_FROM_LEFT)
   \<and> map_of (getQueryObject (\<lambda>i. ''.value'') (limit DEFAULT 3)) VIEW_FROM
       = Some (JString VIEW_FROM_RIGHT)"
proof -
  have r0: "reachable anyLimit (limit DEFAULT 3)"
    by (rule r_limit [OF r_DEFAULT]) simp
  have r: "reachable anyLimit example2"
    by (rule r_limit [OF r_startAt [OF r_DEFAULT]]) simp_all
  show ?thesis
    using r isViewFromLeft_resolution [OF r, of 3 "\<lambda>i. ''.value''"]
          isViewFromLeft_resolution [OF r0, of 3 "\<lambda>i. ''.value''"]
    by (simp add: eval_defs)
qed

subsection \<open>C4: what a transition carries over\<close>

text \<open>
  C4.  The claim is that a legacy mode set earlier, flag and payload, survives every later
  transition.  \<open>copy_\<close> assigns \<open>findSet_\<close> but has no assignment to \<open>aggregateSet_\<close>:
  after \<open>DEFAULT.aggregate(p).limit(3)\<close> the pipeline is still stored, the aggregate
  flag is back to false and the wire object has lost its \<open>a\<close> token, whereas the find
  flag does survive the same transition.
\<close>

theorem aggregate_flag_lost_by_copy:
  "aggregateSet_' (aggregate DEFAULT (JObject [(''$count'', JString ''n'')])) = True
   \<and> aggregateSet_' (limit (aggregate DEFAULT (JObject [(''$count'', JString ''n'')])) 3) = False
   \<and> aggregatePipeline_' (limit (aggregate DEFAULT (JObject [(''$count'', JString ''n'')])) 3)
       = JObject [(''$count'', JString ''n'')]
   \<and> getMongoObject (aggregate DEFAULT (JObject [(''$count'', JString ''n'')]))
       = [(AGGREGATE_PIPELINE, JObject [(''$count'', JString ''n'')])]
   \<and> getMongoObject (limit (aggregate DEFAULT (JObject [(''$count'', JString ''n'')])) 3) = []
   \<and> findSet_' (limit (find_mode DEFAULT (JString ''q'') JUndefined) 3) = True"
  by (simp add: aggregate_def limit_def find_mode_def copy_fields Let_def getMongoObject_def
                DEFAULT_def new_QueryParams_def)

subsection \<open>C5: the tie-break key of \<open>endAt\<close>\<close>

text \<open>
  C5.  The claim is that \<open>endAt\<close> with the key omitted or \<open>null\<close> clears the tie-break
  key, as \<open>startAt\<close> does.  \<open>startAt\<close> tests \<open>key != null\<close>, \<open>endAt\<close> tests
  \<open>key !== undefined\<close>: after \<open>DEFAULT.endAt(10, null)\<close> the end-name flag is set,
  \<open>getIndexEndName\<close> returns \<open>null\<close> instead of \<open>MAX_NAME\<close> and the wire object
  carries \<open>en: null\<close>; with the key omitted \<open>MAX_NAME\<close> is returned, and
  \<open>DEFAULT.startAt(10, null)\<close> returns \<open>MIN_NAME\<close>.
\<close>

theorem endAt_null_key_kept:
  "getIndexEndName MAX_NAME (endAt DEFAULT (JNumber 10) JNull) = Inr JNull
   \<and> getIndexEndName MAX_NAME (endAt DEFAULT (JNumber 10) JUndefined) = Inr (JString MAX_NAME)
   \<and> getIndexStartName MIN_NAME (startAt DEFAULT (JNumber 10) JNull) = Inr (JString MIN_NAME)
   \<and> map_of (getQueryObject toString (endAt DEFAULT (JNumber 10) JNull)) INDEX_END_NAME
       = Some JNull"
  by (simp add: getIndexEndName_def getIndexStartName_def endAt_def startAt_def copy_fields
                Let_def assert_def getQueryObject_def DEFAULT_def new_QueryParams_def)

subsection \<open>C6: REST query-string parameters\<close>

text \<open>
  C6, as stated, fails: \<open>orderBy\<close> stores whatever index it is given, and on an index
  that is neither one of the three well-known singletons nor a \<open>PathIndex\<close> the
  assertion of \<open>toRestQueryStringParameters\<close> fires.  The descriptor
  \<open>DEFAULT.orderBy(other).limit(3)\<close> is reachable, is not default and has a limit, yet
  the call returns no parameter set at all: neither \<open>orderBy\<close> nor a limit parameter.
\<close>

theorem toRest_fails_on_unrecognized_index:
  "reachable anyLimit (limit (orderBy DEFAULT (OtherIndex ''custom'')) 3)
   \<and> \<not> isDefault (limit (orderBy DEFAULT (OtherIndex ''custom'')) 3)
   \<and> hasLimit (limit (orderBy DEFAULT (OtherIndex ''custom'')) 3)
   \<and> toRestQueryStringParameters (\<lambda>v. ''json'') (\<lambda>i. ''custom'')
        (limit (orderBy DEFAULT (OtherIndex ''custom'')) 3)
       = Inl (AssertionError ''Unrecognized index type!'')"
proof -
  have "reachable anyLimit (limit (orderBy DEFAULT (OtherIndex ''custom'')) 3)"
    by (rule r_limit [OF r_orderBy [OF r_DEFAULT]]) simp
  then show ?thesis
    by (simp add: toRest_unknown eval_defs)
qed

text \<open>
  C6, amended.  \<open>toRestQueryStringParameters\<close> returns the empty parameter set iff
  \<open>isDefault\<close> holds.  On a descriptor ordered by the priority, value or key index or by
  a path index it returns a parameter set that contains \<open>orderBy\<close> whenever the
  descriptor is not default, and that, when a limit is set, contains exactly one of
  \<open>limitToFirst\<close> and \<open>limitToLast\<close>, holding the raw limit: \<open>limitToFirst\<close> iff
  \<open>isViewFromLeft\<close>.  Without a limit neither is there.
\<close>

theorem toRest_parameters:
  "(toRestQueryStringParameters stringify toString d = Inr [] \<longleftrightarrow> isDefault d)
   \<and> (knownIndex (index_' d) \<longrightarrow>
        (\<exists>qs. toRestQueryStringParameters stringify toString d = Inr qs
           \<and> (\<not> isDefault d \<longrightarrow> ORDER_BY \<in> fst ` set qs)
           \<and> (hasLimit d \<and> isViewFromLeft d \<longrightarrow>
                 map_of qs LIMIT_TO_FIRST = Some (JNumber (limit_' d))
                 \<and> LIMIT_TO_LAST \<notin> fst ` set qs)
           \<and> (hasLimit d \<and> \<not> isViewFromLeft d \<longrightarrow>
                 map_of qs LIMIT_TO_LAST = Some (JNumber (limit_' d))
                 \<and> LIMIT_TO_FIRST \<notin> fst ` set qs)
           \<and> (\<not> hasLimit d \<longrightarrow>
                 LIMIT_TO_FIRST \<notin> fst ` set qs \<and> LIMIT_TO_LAST \<notin> fst ` set qs)))"
proof (cases "isDefault d")
  case True
  then have "\<not> hasLimit d" by (simp add: isDefault_def loadsAllData_def hasLimit_def)
  with True show ?thesis by (simp add: toRest_default)
next
  case False
  have empty_iff: "toRestQueryStringParameters stringify toString d = Inr [] \<longleftrightarrow> isDefault d"
    using False toRest_nonempty by simp
  have params: "knownIndex (index_' d) \<longrightarrow>
        (\<exists>qs. toRestQueryStringParameters stringify toString d = Inr qs
           \<and> (\<not> isDefault d \<longrightarrow> ORDER_BY \<in> fst ` set qs)
           \<and> (hasLimit d \<and> isViewFromLeft d \<longrightarrow>
                 map_of qs LIMIT_TO_FIRST = Some (JNumber (limit_' d))
                 \<and> LIMIT_TO_LAST \<notin> fst ` set qs)
           \<and> (hasLimit d \<and> \<not> isViewFromLeft d \<longrightarrow>
                 map_of qs LIMIT_TO_LAST = Some (JNumber (limit_' d))
                 \<and> LIMIT_TO_FIRST \<notin> fst ` set qs)
           \<and> (\<not> hasLimit d \<longrightarrow>
                 LIMIT_TO_FIRST \<notin> fst ` set qs \<and> LIMIT_TO_LAST \<notin> fst ` set qs))"
  proof
    assume known: "knownIndex (index_' d)"
    from toRest_known [OF known False, of stringify toString] obtain qs where
      qs: "toRestQueryStringParameters stringify toString d = Inr qs"
          "map_of qs ORDER_BY =
             Some (JString (stringify (JString (restOrderBy toString (index_' d)))))"
          "map_of qs LIMIT_TO_FIRST =
             (if limitSet_' d \<and> isViewFromLeft d then Some (JNumber (limit_' d)) else None)"
          "map_of qs LIMIT_TO_LAST =
             (if limitSet_' d \<and> \<not> isViewFromLeft d then Some (JNumber (limit_' d)) else None)"
      by blast
    have key_iff: "\<And>k. k \<in> fst ` set qs \<longleftrightarrow> map_of qs k \<noteq> None"
      by (simp add: map_of_eq_None_iff)
    show "\<exists>qs. toRestQueryStringParameters stringify toString d = Inr qs
           \<and> (\<not> isDefault d \<longrightarrow> ORDER_BY \<in> fst ` set qs)
           \<and> (hasLimit d \<and> isViewFromLeft d \<longrightarrow>
                 map_of qs LIMIT_TO_FIRST = Some (JNumber (limit_' d))
                 \<and> LIMIT_TO_LAST \<notin> fst ` set qs)
           \<and> (hasLimit d \<and> \<not> isViewFromLeft d \<longrightarrow>
                 map_of qs LIMIT_TO_LAST = Some (JNumber (limit_' d))
                 \<and> LIMIT_TO_FIRST \<notin> fst ` set qs)
           \<and> (\<not> hasLimit d \<longrightarrow>
                 LIMIT_TO_FIRST \<notin> fst ` set qs \<and> LIMIT_TO_LAST \<notin> fst ` set qs)"
      using qs by (intro exI [of _ qs]) (simp add: key_iff hasLimit_def)
  qed
  from empty_iff params show ?thesis by blast
qed

theorem toRest_parameters_witness:
  "knownIndex (index_' example2) \<and> \<not> isDefault example2
   \<and> hasLimit example2 \<and> isViewFromLeft example2
   \<and> (\<exists>qs. toRestQueryStringParameters (\<lambda>v. ''json'') (\<lambda>i. ''.value'') example2 = Inr qs
          \<and> ORDER_BY \<in> fst ` set qs
          \<and> map_of qs LIMIT_TO_FIRST = Some (JNumber 3)
          \<and> LIMIT_TO_LAST \<notin> fst ` set qs)
   \<and> toRestQueryStringParameters (\<lambda>v. ''json'') (\<lambda>i. ''.value'') DEFAULT = Inr []"
  using toRest_parameters [of "\<lambda>v. ''json''" "\<lambda>i. ''.value''" example2]
        toRest_parameters [of "\<lambda>v. ''json''" "\<lambda>i. ''.value''" DEFAULT]
  by (simp add: eval_defs)

subsection \<open>C7: the one error class\<close>

text \<open>
  C7.  Each of \<open>getIndexStartValue\<close>, \<open>getIndexStartName\<close>, \<open>getIndexEndValue\<close>,
  \<open>getIndexEndName\<close> and \<open>getLimit\<close> fails with the assertion iff \<open>hasStart\<close>, \<open>hasEnd\<close>,
  \<open>hasLimit\<close> respectively is false, and returns the stored value otherwise.  The only
  other assertion of the source is the one of \<open>toRestQueryStringParameters\<close>, which does
  not fail on a descriptor ordered by a well-known index; the predicates, the
  transitions, the selector and the wire serializers contain no failing statement and
  are total functions.
\<close>

theorem accessors_fail_iff:
  "(isl (getIndexStartValue d) \<longleftrightarrow> \<not> hasStart d)
   \<and> (isl (getIndexStartName MIN_NAME d) \<longleftrightarrow> \<not> hasStart d)
   \<and> (isl (getIndexEndValue d) \<longleftrightarrow> \<not> hasEnd d)
   \<and> (isl (getIndexEndName MAX_NAME d) \<longleftrightarrow> \<not> hasEnd d)
   \<and> (isl (getLimit d) \<longleftrightarrow> \<not> hasLimit d)
   \<and> (hasStart d \<longrightarrow> getIndexStartValue d = Inr (indexStartValue_' d))
   \<and> (hasEnd d \<longrightarrow> getIndexEndValue d = Inr (indexEndValue_' d))
   \<and> (hasLimit d \<longrightarrow> getLimit d = Inr (limit_' d))
   \<and> (knownIndex (index_' d) \<longrightarrow> \<not> isl (toRestQueryStringParameters stringify toString d))"
proof -
  have "knownIndex (index_' d) \<longrightarrow> \<not> isl (toRestQueryStringParameters stringify toString d)"
  proof (cases "isDefault d")
    case True
    then show ?thesis by (simp add: toRest_default)
  next
    case False
    show ?thesis
    proof
      assume "knownIndex (index_' d)"
      from toRest_known [OF this False, of stringify toString]
      show "\<not> isl (toRestQueryStringParameters stringify toString d)" by auto
    qed
  qed
  then show ?thesis
    by (simp add: getIndexStartValue_def getIndexStartName_def getIndexEndValue_def
          getIndexEndName_def getLimit_def assert_def hasStart_def hasEnd_def hasLimit_def)
qed

theorem accessors_fail_iff_witness:
  "isl (getIndexStartValue DEFAULT)
   \<and> isl (getLimit DEFAULT)
   \<and> getIndexStartValue example2 = Inr (JNumber 5)
   \<and> getLimit example2 = Inr 3
   \<and> isl (getIndexEndName ''[MAX_NAME]'' example2)
   \<and> \<not> isl (toRestQueryStringParameters (\<lambda>v. ''json'') (\<lambda>i. ''.value'') example2)"
  using accessors_fail_iff [of DEFAULT "''[MIN_NAME]''" "''[MAX_NAME]''"
                               "\<lambda>v. ''json''" "\<lambda>i. ''.value''"]
        accessors_fail_iff [of example2 "''[MIN_NAME]''" "''[MAX_NAME]''"
                               "\<lambda>v. ''json''" "\<lambda>i. ''.value''"]
  by (simp add: eval_defs)

subsection \<open>C8: the stored limit and its anchor\<close>

text \<open>
  C8, as stated, fails: the descriptor does not validate its arguments, so
  \<open>DEFAULT.limit(-1)\<close> is a reachable descriptor with \<open>hasLimit\<close> true whose stored limit
  is negative.
\<close>

theorem negative_limit_stored:
  "reachable anyLimit (limit DEFAULT (- 1))
   \<and> hasLimit (limit DEFAULT (- 1))
   \<and> getLimit (limit DEFAULT (- 1)) = Inr (- 1)
   \<and> \<not> 0 \<le> limit_' (limit DEFAULT (- 1))"
proof -
  have "reachable anyLimit (limit DEFAULT (- 1))"
    by (rule r_limit [OF r_DEFAULT]) simp
  then show ?thesis
    by (simp add: hasLimit_def getLimit_def assert_def limit_def copy_fields Let_def)
qed

text \<open>
  C8, amended.  The stored limit is the number that the last limit transition was given,
  so on every descriptor reached by transitions whose limit arguments are all
  non-negative, the stored limit is non-negative.  \<open>limit(n)\<close> always clears the anchor
  (\<open>hasAnchoredLimit\<close> is false on the result); \<open>limitToFirst(n)\<close> and \<open>limitToLast(n)\<close>
  always set one (\<open>hasAnchoredLimit\<close> is true on the result).
\<close>

theorem limit_anchor_and_sign:
  "(reachable (\<lambda>n. 0 \<le> n) d \<longrightarrow> hasLimit d \<longrightarrow> 0 \<le> limit_' d)
   \<and> getLimit (limit d n) = Inr n
   \<and> getLimit (limitToFirst d n) = Inr n
   \<and> getLimit (limitToLast d n) = Inr n
   \<and> \<not> hasAnchoredLimit (limit d n)
   \<and> hasAnchoredLimit (limitToFirst d n)
   \<and> hasAnchoredLimit (limitToLast d n)"
  by (simp add: reachable_limit getLimit_def assert_def hasAnchoredLimit_def limit_def
        limitToFirst_def limitToLast_def copy_fields Let_def)

theorem limit_anchor_and_sign_witness:
  "reachable (\<lambda>n. 0 \<le> n) (limitToFirst DEFAULT 3)
   \<and> hasLimit (limitToFirst DEFAULT 3)
   \<and> 0 \<le> limit_' (limitToFirst DEFAULT 3)
   \<and> \<not> hasAnchoredLimit (limit (limitToFirst DEFAULT 3) 2)"
proof -
  have r: "reachable (\<lambda>n. 0 \<le> n) (limitToFirst DEFAULT 3)"
    by (rule r_limitToFirst [OF r_DEFAULT]) simp
  show ?thesis
    using r limit_anchor_and_sign [of "limitToFirst DEFAULT 3" 2]
    by (simp add: hasLimit_def limitToFirst_def copy_fields Let_def)
qed

subsection \<open>C9: observer detection\<close>

text \<open>
  C9, as stated, fails: the guard of \<open>implementsAnyMethods\<close> rejects every value whose
  \<open>typeof\<close> is not \<open>"object"\<close> before any member is looked at.  A function value that
  carries a callable \<open>next\<close> exposes that member, yet it is not a partial observer.
\<close>

theorem function_with_next_rejected:
  "exposesCallable (JFunction [(''next'', JFunction [])]) ''next''
   \<and> typeof (JFunction [(''next'', JFunction [])]) = ''function''
   \<and> \<not> isPartialObserver (JFunction [(''next'', JFunction [])])"
  by (simp add: exposesCallable_def isPartialObserver_def implementsAnyMethods_def)

text \<open>
  C9, amended.  \<open>isPartialObserver x\<close> is true iff \<open>x\<close> is an object (\<open>typeof x\<close> is
  \<open>"object"\<close>) that exposes at least one of \<open>next\<close>, \<open>error\<close>, \<open>complete\<close> as a
  callable, whatever else it carries; it is false for \<open>null\<close> and for every value whose
  \<open>typeof\<close> is not \<open>"object"\<close>, functions included.
\<close>

theorem isPartialObserver_iff:
  "(isPartialObserver x \<longleftrightarrow>
      typeof x = ''object'' \<and>
      (exposesCallable x ''next'' \<or> exposesCallable x ''error'' \<or> exposesCallable x ''complete''))
   \<and> \<not> isPartialObserver JNull
   \<and> (typeof x \<noteq> ''object'' \<longrightarrow> \<not> isPartialObserver x)"
proof (cases x)
  case (JObject ps)
  then show ?thesis
    by (simp add: isPartialObserver_def implementsAnyMethods_def implementsAnyMethods_loop_iff
                  callable_member)
qed (simp_all add: isPartialObserver_def implementsAnyMethods_def exposesCallable_def)

theorem isPartialObserver_iff_witness:
  "isPartialObserver (JObject [(''id'', JNumber 7), (''error'', JFunction [])])
   \<and> \<not> isPartialObserver (JObject [(''next'', JString ''soon'')])
   \<and> \<not> isPartialObserver (JFunction [(''next'', JFunction [])])
   \<and> \<not> isPartialObserver JNull"
  using isPartialObserver_iff [of "JObject [(''id'', JNumber 7), (''error'', JFunction [])]"]
        isPartialObserver_iff [of "JObject [(''next'', JString ''soon'')]"]
        isPartialObserver_iff [of "JFunction [(''next'', JFunction [])]"]
  by (simp add: exposesCallable_def)

subsection \<open>C10: tie-break keys only with their bound\<close>

text \<open>
  C10.  On every descriptor reachable from \<open>DEFAULT\<close> the start-name flag is set only if
  the start bound is set, and the end-name flag only if the end bound is set; hence the
  wire object never has \<open>sn\<close> without \<open>sp\<close>, nor \<open>en\<close> without \<open>ep\<close>.
\<close>

theorem names_only_with_bounds:
  assumes "reachable anyLimit d"
  shows "(startNameSet_' d \<longrightarrow> hasStart d) \<and> (endNameSet_' d \<longrightarrow> hasEnd d)
   \<and> (INDEX_START_NAME \<in> fst ` set (getQueryObject toString d)
        \<longrightarrow> INDEX_START_VALUE \<in> fst ` set (getQueryObject toString d))
   \<and> (INDEX_END_NAME \<in> fst ` set (getQueryObject toString d)
        \<longrightarrow> INDEX_END_VALUE \<in> fst ` set (getQueryObject toString d))"
  using reachable_names [OF assms]
  unfolding keys_getQueryObject hasStart_def hasEnd_def by auto

theorem names_only_with_bounds_witness:
  "reachable anyLimit (startAt DEFAULT (JNumber 5) (JString ''k1''))
   \<and> startNameSet_' (startAt DEFAULT (JNumber 5) (JString ''k1''))
   \<and> hasStart (startAt DEFAULT (JNumber 5) (JString ''k1''))
   \<and> INDEX_START_NAME
       \<in> fst ` set (getQueryObject (\<lambda>i. ''.value'') (startAt DEFAULT (JNumber 5) (JString ''k1'')))
   \<and> INDEX_START_VALUE
       \<in> fst ` set (getQueryObject (\<lambda>i. ''.value'') (startAt DEFAULT (JNumber 5) (JString ''k1'')))"
proof -
  have r: "reachable anyLimit (startAt DEFAULT (JNumber 5) (JString ''k1''))"
    by (rule r_startAt [OF r_DEFAULT]) simp
  show ?thesis
    using r names_only_with_bounds [OF r, of "\<lambda>i. ''.value''"]
    by (simp add: eval_defs keys_getQueryObject)
qed

end
